theory Spec2Isabelle
  imports Complex_Main "HOL-Library.Word"
begin

unbundle bit_operations_syntax

section \<open>Key derivation: \<open>Stagehand.getKey\<close>\<close>

text \<open>
  \<^verbatim>\<open>getKey(operation) { return crypto.createHash('sha256').update(operation).digest('hex'); }\<close>
  (src/lib/index.ts, lines 137-139). The instruction text is a \<open>string\<close>: the list of
  the bytes of its UTF-8 encoding, which is what \<open>update\<close> hashes. The hash of Node's
  \<open>crypto\<close> module is not part of the repository; it is SHA-256 as FIPS 180-4 defines it,
  written out here on 32-bit words so that the key of a concrete text can be computed.
  The round constants and the initial hash value are given in decimal.
\<close>

type_synonym u32 = "32 word"

type_synonym hash = "u32 \<times> u32 \<times> u32 \<times> u32 \<times> u32 \<times> u32 \<times> u32 \<times> u32"

definition K256 :: "u32 list" where
  "K256 =
   [1116352408, 1899447441, 3049323471, 3921009573, 961987163, 1508970993, 2453635748, 2870763221,
    3624381080, 310598401, 607225278, 1426881987, 1925078388, 2162078206, 2614888103, 3248222580,
    3835390401, 4022224774, 264347078, 604807628, 770255983, 1249150122, 1555081692, 1996064986,
    2554220882, 2821834349, 2952996808, 3210313671, 3336571891, 3584528711, 113926993, 338241895,
    666307205, 773529912, 1294757372, 1396182291, 1695183700, 1986661051, 2177026350, 2456956037,
    2730485921, 2820302411, 3259730800, 3345764771, 3516065817, 3600352804, 4094571909, 275423344,
    430227734, 506948616, 659060556, 883997877, 958139571, 1322822218, 1537002063, 1747873779,
    1955562222, 2024104815, 2227730452, 2361852424, 2428436474, 2756734187, 3204031479, 3329325298]"

definition H256 :: hash where
  "H256 = (1779033703, 3144134277, 1013904242, 2773480762,
           1359893119, 2600822924, 528734635, 1541459225)"

definition rotr :: "nat \<Rightarrow> u32 \<Rightarrow> u32" where
  "rotr n x = drop_bit n x OR push_bit (32 - n) x"

definition Ch :: "u32 \<Rightarrow> u32 \<Rightarrow> u32 \<Rightarrow> u32" where
  "Ch x y z = (x AND y) XOR (NOT x AND z)"

definition Maj :: "u32 \<Rightarrow> u32 \<Rightarrow> u32 \<Rightarrow> u32" where
  "Maj x y z = (x AND y) XOR (x AND z) XOR (y AND z)"

definition bsig0 :: "u32 \<Rightarrow> u32" where
  "bsig0 x = rotr 2 x XOR rotr 13 x XOR rotr 22 x"

definition bsig1 :: "u32 \<Rightarrow> u32" where
  "bsig1 x = rotr 6 x XOR rotr 11 x XOR rotr 25 x"

definition ssig0 :: "u32 \<Rightarrow> u32" where
  "ssig0 x = rotr 7 x XOR rotr 18 x XOR drop_bit 3 x"

definition ssig1 :: "u32 \<Rightarrow> u32" where
  "ssig1 x = rotr 17 x XOR rotr 19 x XOR drop_bit 10 x"

definition utf8_bytes :: "string \<Rightarrow> u32 list" where
  "utf8_bytes s = map (\<lambda>c. word_of_nat (of_char c)) s"

text \<open>The message length in bits, as eight big-endian bytes of a 64-bit count.\<close>

definition length_bytes :: "nat \<Rightarrow> u32 list" where
  "length_bytes n =
     map (\<lambda>i. ucast (drop_bit (8 * (7 - i)) (8 * word_of_nat n :: 64 word)) AND 0xff) [0..<8]"

definition pad :: "u32 list \<Rightarrow> u32 list" where
  "pad bs = bs @ [0x80] @ replicate ((119 - length bs mod 64) mod 64) 0 @ length_bytes (length bs)"

fun be32 :: "u32 list \<Rightarrow> u32 list" where
  "be32 (a # b # c # d # r) = (push_bit 24 a OR push_bit 16 b OR push_bit 8 c OR d) # be32 r"
| "be32 _ = []"

fun schedule :: "nat \<Rightarrow> u32 list \<Rightarrow> u32 list" where
  "schedule 0 w = w"
| "schedule (Suc k) w =
     (let t = length w
      in schedule k (w @ [ssig1 (w ! (t - 2)) + w ! (t - 7) + ssig0 (w ! (t - 15)) + w ! (t - 16)]))"

fun round :: "u32 \<times> u32 \<Rightarrow> hash \<Rightarrow> hash" where
  "round (k, w) (a, b, c, d, e, f, g, h) =
     (let t1 = h + bsig1 e + Ch e f g + k + w;
          t2 = bsig0 a + Maj a b c
      in (t1 + t2, a, b, c, d + t1, e, f, g))"

fun add_hash :: "hash \<Rightarrow> hash \<Rightarrow> hash" where
  "add_hash (a, b, c, d, e, f, g, h) (a', b', c', d', e', f', g', h') =
     (a + a', b + b', c + c', d + d', e + e', f + f', g + g', h + h')"

definition compress :: "hash \<Rightarrow> u32 list \<Rightarrow> hash" where
  "compress H block = add_hash H (fold round (zip K256 (schedule 48 block)) H)"

function sha_blocks :: "hash \<Rightarrow> u32 list \<Rightarrow> hash" where
  "sha_blocks H ws =
     (if length ws < 16 then H else sha_blocks (compress H (take 16 ws)) (drop 16 ws))"
  by pat_completeness auto
termination
  by (relation "measure (\<lambda>(H, ws). length ws)") auto

declare sha_blocks.simps [simp del]

definition sha256 :: "string \<Rightarrow> hash" where
  "sha256 s = sha_blocks H256 (be32 (pad (utf8_bytes s)))"

definition hexdigit :: "nat \<Rightarrow> char" where
  "hexdigit n = ''0123456789abcdef'' ! n"

definition hex32 :: "u32 \<Rightarrow> string" where
  "hex32 w = map (\<lambda>i. hexdigit (unat (drop_bit (4 * (7 - i)) w AND 0xf))) [0..<8]"

fun digest_hex :: "hash \<Rightarrow> string" where
  "digest_hex (a, b, c, d, e, f, g, h) =
     hex32 a @ hex32 b @ hex32 c @ hex32 d @ hex32 e @ hex32 f @ hex32 g @ hex32 h"

definition getKey :: "string \<Rightarrow> string" where
  "getKey operation = digest_hex (sha256 operation)"

section \<open>Values of the JavaScript runtime\<close>

text \<open>
  What \<open>JSON.parse\<close> and the oracle hand to the engine is a JSON value. A string is the
  byte list of its UTF-8 encoding. A number is a rational: every finite double is one, and
  JSON text has neither \<open>NaN\<close> nor an infinity. An object is the list of its own members
  (the member of a key is the first pair with that key). The value \<open>undefined\<close> of a
  property read is \<open>None\<close> of \<open>json option\<close>.
\<close>

datatype json =
    JNull
  | JBool bool
  | JNum rat
  | JStr string
  | JArr "json list"
  | JObj "(string \<times> json) list"

text \<open>
  Every \<open>throw\<close> and every rejected promise is a value: \<open>TypeError\<close> and
  \<open>SyntaxError\<close> are raised by the language itself, \<open>Error\<close> is the engine's own
  \<open>new Error(message)\<close>, \<open>ExpectError\<close> is a failed \<open>expect(...).toBeAttached()\<close>,
  \<open>External\<close> is a failure inside a collaborator (the page or the oracle).
\<close>

datatype error =
    TypeError
  | SyntaxError
  | Error string
  | ExpectError
  | External string

text \<open>
  A JavaScript string iterates by code point and counts its \<open>length\<close> in UTF-16 code
  units. In UTF-8 a code point is a byte that is no continuation byte (\<open>10xxxxxx\<close>)
  followed by its continuation bytes; it takes two UTF-16 units when it has four bytes
  and one otherwise.
\<close>

definition is_continuation :: "char \<Rightarrow> bool" where
  "is_continuation c = (128 \<le> (of_char c :: nat) \<and> (of_char c :: nat) < 192)"

fun code_points :: "string \<Rightarrow> string list" where
  "code_points [] = []"
| "code_points (c # cs) =
     (case code_points cs of
        [] \<Rightarrow> [[c]]
      | p # ps \<Rightarrow>
          (case p of
             [] \<Rightarrow> [c] # ps
           | d # ds \<Rightarrow> if is_continuation d then (c # p) # ps else [c] # p # ps))"

definition utf16_length :: "string \<Rightarrow> nat" where
  "utf16_length s = sum_list (map (\<lambda>p. if 4 \<le> length p then 2 else 1) (code_points s))"

text \<open>Truthiness, as \<open>if (v)\<close> and \<open>v ? a : b\<close> test it.\<close>

fun truthy :: "json option \<Rightarrow> bool" where
  "truthy None = False"
| "truthy (Some JNull) = False"
| "truthy (Some (JBool b)) = b"
| "truthy (Some (JNum n)) = (n \<noteq> 0)"
| "truthy (Some (JStr s)) = (s \<noteq> [])"
| "truthy (Some (JArr xs)) = True"
| "truthy (Some (JObj kvs)) = True"

text \<open>
  A property read \<open>v[k]\<close>, for the property names the engine reads (\<open>length\<close>,
  \<open>locator\<close>, \<open>element\<close>, \<open>method\<close>, \<open>args\<close>): reading a property of
  \<open>null\<close> raises, an object gives its member or \<open>undefined\<close>, arrays and strings
  have a \<open>length\<close> and none of the others, a number or a boolean has none of them.
\<close>

fun js_get :: "json \<Rightarrow> string \<Rightarrow> error + json option" where
  "js_get JNull k = Inl TypeError"
| "js_get (JObj kvs) k = Inr (map_of kvs k)"
| "js_get (JArr xs) k = Inr (if k = ''length'' then Some (JNum (of_nat (length xs))) else None)"
| "js_get (JStr s) k = Inr (if k = ''length'' then Some (JNum (of_nat (utf16_length s))) else None)"
| "js_get (JBool b) k = Inr None"
| "js_get (JNum n) k = Inr None"

text \<open>
  Iteration, as \<open>for (const c of v)\<close> and the spread \<open>...v\<close> do it: an array gives
  its elements, a string its code points, anything else is not iterable.
\<close>

fun iterate :: "json option \<Rightarrow> error + json list" where
  "iterate (Some (JArr xs)) = Inr xs"
| "iterate (Some (JStr s)) = Inr (map JStr (code_points s))"
| "iterate _ = Inl TypeError"

text \<open>
  Conversion to a string, as a template literal \<^verbatim>\<open>`${v}`\<close> and a property key
  \<open>m[v]\<close> do it. An object is converted by its \<open>toString\<close> method and then its
  \<open>valueOf\<close> method: an object of JSON data that has a member \<open>toString\<close> of its own
  hides the inherited method with a value that cannot be called, its \<open>valueOf\<close> gives
  no primitive value, and the conversion raises; every other object is
  \<open>[object Object]\<close>. An array joins the conversions of its elements with commas, \<open>null\<close>
  giving the empty string, and raises when one of them does. A number is converted by
  the runtime (\<open>Number::toString\<close>, the parameter \<open>N\<close>): it never raises.
\<close>

fun stringable :: "json \<Rightarrow> bool" where
  "stringable (JObj kvs) = (map_of kvs ''toString'' = None)"
| "stringable (JArr xs) = list_all stringable xs"
| "stringable JNull = True"
| "stringable (JBool b) = True"
| "stringable (JNum n) = True"
| "stringable (JStr s) = True"

fun join_comma :: "string list \<Rightarrow> string" where
  "join_comma [] = []"
| "join_comma [x] = x"
| "join_comma (x # y # r) = x @ '','' @ join_comma (y # r)"

fun js_text :: "(rat \<Rightarrow> string) \<Rightarrow> json \<Rightarrow> string" where
  "js_text N JNull = ''null''"
| "js_text N (JBool b) = (if b then ''true'' else ''false'')"
| "js_text N (JNum n) = N n"
| "js_text N (JStr s) = s"
| "js_text N (JArr xs) = join_comma (map (\<lambda>x. if x = JNull then [] else js_text N x) xs)"
| "js_text N (JObj kvs) = ''[object Object]''"

definition js_to_string :: "(rat \<Rightarrow> string) \<Rightarrow> json option \<Rightarrow> error + string" where
  "js_to_string N v =
     (case v of
        None \<Rightarrow> Inr ''undefined''
      | Some j \<Rightarrow> if stringable j then Inr (js_text N j) else Inl TypeError)"

definition property_key :: "(rat \<Rightarrow> string) \<Rightarrow> json option \<Rightarrow> error + string" where
  "property_key N v = js_to_string N v"

text \<open>The template literal \<^verbatim>\<open>`xpath=${path}`\<close>, \<open>path\<close> read from the selector map.\<close>

definition xpath_of :: "string option \<Rightarrow> string" where
  "xpath_of path = ''xpath='' @ (case path of None \<Rightarrow> ''undefined'' | Some p \<Rightarrow> p)"

text \<open>
  The messages of the two \<open>this.log\<close> calls inside the loops of \<open>act\<close>:
  \<^verbatim>\<open>`Cached action ${method} on ${locatorStr} with args ${args}`\<close> (line 322) and
  \<^verbatim>\<open>`taking action ${method} on ${path} with args ${args}`\<close> (line 358). The message
  is built before \<open>log\<close> is called, whatever \<open>verbose\<close> is, and building it raises when
  a conversion does.
\<close>

definition cached_action_message ::
  "(rat \<Rightarrow> string) \<Rightarrow> json option \<Rightarrow> json option \<Rightarrow> json option \<Rightarrow> error + string" where
  "cached_action_message N meth locatorStr args =
     (case js_to_string N meth of
        Inl e \<Rightarrow> Inl e
      | Inr m \<Rightarrow>
          (case js_to_string N locatorStr of
             Inl e \<Rightarrow> Inl e
           | Inr l \<Rightarrow>
               (case js_to_string N args of
                  Inl e \<Rightarrow> Inl e
                | Inr a \<Rightarrow> Inr (''Cached action '' @ m @ '' on '' @ l @ '' with args '' @ a))))"

definition taking_action_message ::
  "(rat \<Rightarrow> string) \<Rightarrow> json option \<Rightarrow> string option \<Rightarrow> json option \<Rightarrow> error + string" where
  "taking_action_message N meth path args =
     (case js_to_string N meth of
        Inl e \<Rightarrow> Inl e
      | Inr m \<Rightarrow>
          (case js_to_string N args of
             Inl e \<Rightarrow> Inl e
           | Inr a \<Rightarrow>
               Inr (''taking action '' @ m @ '' on ''
                    @ (case path of None \<Rightarrow> ''undefined'' | Some p \<Rightarrow> p)
                    @ '' with args '' @ a)))"

text \<open>
  \<^verbatim>\<open>const commands = res.length ? res : [res]; for (const command of commands)\<close>:
  the list the loop runs over. Reading \<open>length\<close> of \<open>null\<close> raises; a value with a
  truthy \<open>length\<close> is iterated as it is, any other value is the one element of a list.
\<close>

definition commands_of :: "json \<Rightarrow> error + json list" where
  "commands_of res =
     (case js_get res ''length'' of
        Inl e \<Rightarrow> Inl e
      | Inr len \<Rightarrow> if truthy len then iterate (Some res) else Inr [res])"

section \<open>The persistent cache\<close>

record entry =
  result :: string
  id_entry :: "string option"

text \<open>
  Modelled from the spec: the class \<open>Cache\<close> of \<open>./cache\<close>, which src/lib/index.ts
  imports and which is not among the sources. Section 4.2 of the specification: two
  independent durable key/value tables (observations, actions), and a switch that
  disables caching.
\<close>

record Cache =
  disabled :: bool
  observations_table :: "string \<rightharpoonup> entry"
  actions_table :: "string \<rightharpoonup> entry"

text \<open>
  Modelled from the spec: the methods \<open>readObservations\<close> and \<open>readActions\<close> of
  \<open>Cache\<close>. Section 4.2: \<open>load\<close> returns the full current mapping; when caching is
  administratively disabled, \<open>load\<close> returns an empty mapping.
\<close>

definition readObservations :: "Cache \<Rightarrow> (string \<rightharpoonup> entry)" where
  "readObservations c = (if disabled c then Map.empty else observations_table c)"

definition readActions :: "Cache \<Rightarrow> (string \<rightharpoonup> entry)" where
  "readActions c = (if disabled c then Map.empty else actions_table c)"

text \<open>
  Modelled from the spec: the methods \<open>writeObservations\<close> and \<open>writeActions\<close> of
  \<open>Cache\<close>. Section 4.2: \<open>write\<close> updates the mapping; when caching is
  administratively disabled, \<open>write\<close> is a no-op.
\<close>

definition writeObservations :: "string \<Rightarrow> entry \<Rightarrow> Cache \<Rightarrow> Cache" where
  "writeObservations key v c =
     (if disabled c then c else c\<lparr>observations_table := (observations_table c)(key \<mapsto> v)\<rparr>)"

definition writeActions :: "string \<Rightarrow> entry \<Rightarrow> Cache \<Rightarrow> Cache" where
  "writeActions key v c =
     (if disabled c then c else c\<lparr>actions_table := (actions_table c)(key \<mapsto> v)\<rparr>)"

section \<open>The collaborators\<close>

text \<open>
  The live document, the oracle and \<open>JSON.parse\<close> are outside the repository. They are
  parameters: functions on a state \<open>'w\<close> of the outside world (the page and whatever the
  oracle depends on), about which nothing is assumed.
  \<^item> \<open>waitForDomSettle\<close>: \<^verbatim>\<open>page.evaluate(() => window.waitForDomSettle())\<close>, which may reject.
  \<^item> \<open>processElements\<close>: \<^verbatim>\<open>page.evaluate(() => window.processElements())\<close>, giving
    \<open>outputString\<close> and \<open>selectorMap\<close> (a property read \<open>selectorMap[k]\<close> is the map at
    the key \<open>k\<close>).
  \<^item> \<open>chat_completion\<close>: \<^verbatim>\<open>openai.chat.completions.create(...)\<close> for an instruction and
    the element list, read at \<^verbatim>\<open>choices[0].message.content\<close> (a string or \<open>null\<close>).
  \<^item> \<open>inference_act\<close>: the function \<open>act\<close> of \<open>./inference\<close>, for an action and the
    element list; \<open>JNull\<close> also stands for an \<open>undefined\<close> response (a property read
    raises on both).
  \<^item> \<open>attached\<close>: whether \<^verbatim>\<open>expect(page.locator(l).first()).toBeAttached()\<close> holds, that
    is, whether the locator matches at least one attached element of the live document.
  \<^item> \<open>locator_method\<close>: whether \<^verbatim>\<open>page.locator(l).first()[k]\<close> is a function, for a
    property key \<open>k\<close>: the interaction primitives of a locator (\<open>click\<close>, \<open>fill\<close>, ...).
  \<^item> \<open>invoke\<close>: the call \<^verbatim>\<open>page.locator(l).first()[method](...args)\<close> of such a function,
    with the arguments already spread; its error is \<open>None\<close> when the interaction
    succeeds.
  \<^item> \<open>JSON_parse\<close>: \<open>JSON.parse\<close>.
  \<^item> \<open>Number_toString\<close>: the conversion of a number to a string (\<open>Number::toString\<close>
    of the language: the shortest digits that read back as the same double, in exponent
    form from \<open>1e21\<close> on).
\<close>

record 'w collaborators =
  waitForDomSettle :: "'w \<Rightarrow> error option \<times> 'w"
  processElements :: "'w \<Rightarrow> (error + string \<times> (string \<rightharpoonup> string)) \<times> 'w"
  chat_completion :: "string \<Rightarrow> string \<Rightarrow> 'w \<Rightarrow> (error + string option) \<times> 'w"
  inference_act :: "string \<Rightarrow> string \<Rightarrow> 'w \<Rightarrow> (error + json) \<times> 'w"
  attached :: "'w \<Rightarrow> string \<Rightarrow> bool"
  locator_method :: "string \<Rightarrow> bool"
  invoke :: "json option \<Rightarrow> json option \<Rightarrow> json list \<Rightarrow> 'w \<Rightarrow> error option \<times> 'w"
  JSON_parse :: "string \<Rightarrow> error + json"
  Number_toString :: "rat \<Rightarrow> string"

text \<open>
  The calls the engine makes to its collaborators are recorded, in order: this is the
  instrumentation that an oracle-call counter reads.
\<close>

datatype event =
    Settle
  | Snapshot
  | OracleLocator string string
  | OracleActions string string
  | Expect string
  | Interact "json option" "json option" "json list"

fun is_oracle :: "event \<Rightarrow> bool" where
  "is_oracle (OracleLocator i d) = True"
| "is_oracle (OracleActions i d) = True"
| "is_oracle _ = False"

fun is_interact :: "event \<Rightarrow> bool" where
  "is_interact (Interact l m a) = True"
| "is_interact _ = False"

section \<open>The class \<open>Stagehand\<close>\<close>

text \<open>
  The fields of the class that the engine reads or writes: the in-memory mirrors
  \<open>observations\<close> and \<open>actions\<close>, the session identifier \<open>id\<close> (here \<open>id_session\<close>,
  \<open>None\<close> until \<open>setId\<close> is called), the page (the outside world), the cache and
  \<open>verbose\<close>. \<open>events\<close> is the record of the collaborator calls. A call of
  \<open>this.log\<close> only prints, and only when \<open>verbose\<close> is set; what is kept of it is the
  evaluation of its message where that can raise: in the two loops of \<open>act\<close>. The other
  messages are built from strings and from \<open>JSON.stringify\<close> of JSON data, which do not
  raise.
\<close>

record 'w stagehand =
  observations :: "string \<rightharpoonup> entry"
  actions :: "string \<rightharpoonup> entry"
  id_session :: "string option"
  page :: 'w
  cache :: Cache
  verbose :: bool
  events :: "event list"

text \<open>
  The constructor (lines 69-93): the cache is built from \<open>disableCache\<close> over the durable
  tables as they are at startup, and both mirrors are loaded from it once.
\<close>

definition new_Stagehand ::
  "bool \<Rightarrow> bool \<Rightarrow> (string \<rightharpoonup> entry) \<Rightarrow> (string \<rightharpoonup> entry) \<Rightarrow> 'w \<Rightarrow> 'w stagehand" where
  "new_Stagehand disableCache verbose0 obs_table act_table w =
     (let c = \<lparr>disabled = disableCache, observations_table = obs_table, actions_table = act_table\<rparr>
      in \<lparr>observations = readObservations c, actions = readActions c, id_session = None,
          page = w, cache = c, verbose = verbose0, events = []\<rparr>)"

definition setId :: "string \<Rightarrow> 'w stagehand \<Rightarrow> 'w stagehand" where
  "setId key s = s\<lparr>id_session := Some key\<rparr>"

definition oracle_calls :: "'w stagehand \<Rightarrow> nat" where
  "oracle_calls s = length (filter is_oracle (events s))"

definition interactions :: "'w stagehand \<Rightarrow> event list" where
  "interactions s = filter is_interact (events s)"

text \<open>
  \<open>waitForSettledDom\<close> (lines 129-135): the rejection of the evaluation is caught and
  printed, so the call never raises.
\<close>

definition waitForSettledDom :: "'w collaborators \<Rightarrow> 'w stagehand \<Rightarrow> 'w stagehand" where
  "waitForSettledDom C s =
     (case waitForDomSettle C (page s) of
        (r, w) \<Rightarrow> s\<lparr>page := w, events := events s @ [Settle]\<rparr>)"

text \<open>\<open>cacheObservation\<close> (lines 280-287) and \<open>cacheAction\<close> (lines 289-296).\<close>

definition cacheObservation :: "string \<Rightarrow> string \<Rightarrow> 'w stagehand \<Rightarrow> string \<times> 'w stagehand" where
  "cacheObservation observation res s =
     (let key = getKey observation;
          v = \<lparr>result = res, id_entry = id_session s\<rparr>
      in (key, s\<lparr>observations := (observations s)(key \<mapsto> v),
                 cache := writeObservations key v (cache s)\<rparr>))"

definition cacheAction :: "string \<Rightarrow> string \<Rightarrow> 'w stagehand \<Rightarrow> string \<times> 'w stagehand" where
  "cacheAction action res s =
     (let key = getKey action;
          v = \<lparr>result = res, id_entry = id_session s\<rparr>
      in (key, s\<lparr>actions := (actions s)(key \<mapsto> v),
                 cache := writeActions key v (cache s)\<rparr>))"

text \<open>
  \<^verbatim>\<open>await expect(this.page.locator(l).first()).toBeAttached()\<close> (lines 201-205 and
  269-271): raises when the locator matches no attached element.
\<close>

definition expect_toBeAttached ::
  "'w collaborators \<Rightarrow> string \<Rightarrow> 'w stagehand \<Rightarrow> (error + unit) \<times> 'w stagehand" where
  "expect_toBeAttached C l s =
     (if attached C (page s) l then Inr () else Inl ExpectError,
      s\<lparr>events := events s @ [Expect l]\<rparr>)"

text \<open>
  \<open>observe\<close> (lines 191-275). The result is the key, \<open>None\<close> for JavaScript's \<open>null\<close>,
  or the error raised. The cache is hit when the entry's \<open>result\<close> is truthy, that is, a
  non-empty string.
\<close>

definition observe ::
  "'w collaborators \<Rightarrow> string \<Rightarrow> 'w stagehand \<Rightarrow> (error + string option) \<times> 'w stagehand" where
  "observe C observation s =
     (let key = getKey observation;
          observationLocatorStr = map_option result (observations s key)
      in if truthy (map_option JStr observationLocatorStr) then
           (case expect_toBeAttached C (the observationLocatorStr) s of
              (Inl e, s1) \<Rightarrow> (Inl e, s1)
            | (Inr u, s1) \<Rightarrow> (Inr (Some key), s1))
         else
           (case processElements C (page s) of
              (Inl e, w1) \<Rightarrow> (Inl e, s\<lparr>page := w1, events := events s @ [Snapshot]\<rparr>)
            | (Inr (outputString, selectorMap), w1) \<Rightarrow>
                (case chat_completion C observation outputString w1 of
                   (r, w2) \<Rightarrow>
                     (let s2 = s\<lparr>page := w2,
                                 events := events s @ [Snapshot, OracleLocator observation outputString]\<rparr>
                      in case r of
                           Inl e \<Rightarrow> (Inl e, s2)
                         | Inr elementId \<Rightarrow>
                             if \<not> truthy (map_option JStr elementId) then
                               (Inl (Error ''no response when finding a selector''), s2)
                             else if elementId = Some ''NONE'' then (Inr None, s2)
                             else
                               (let locatorString = xpath_of (selectorMap (the elementId))
                                in case expect_toBeAttached C locatorString s2 of
                                     (Inl e, s3) \<Rightarrow> (Inl e, s3)
                                   | (Inr u, s3) \<Rightarrow>
                                       (case cacheObservation observation locatorString s3 of
                                          (cachedKey, s4) \<Rightarrow> (Inr (Some cachedKey), s4)))))))"

text \<open>
  One pass of either loop body of \<open>act\<close>, from the locator on (lines 324-325 and
  360-361): \<^verbatim>\<open>locator[method](...args)\<close> reads the member of the locator at the
  property key of \<open>method\<close>, spreads the arguments, which raises when \<open>args\<close> is not
  iterable, raises when the member is no function, and calls it otherwise. \<open>Interact\<close>
  records that call, whether it succeeds or raises. Creating the locator itself
  (\<^verbatim>\<open>this.page.locator(l).first()\<close>) does nothing to the page.
\<close>

definition call_method ::
  "'w collaborators \<Rightarrow> json option \<Rightarrow> json option \<Rightarrow> json option \<Rightarrow> 'w stagehand
     \<Rightarrow> (error + unit) \<times> 'w stagehand" where
  "call_method C locatorStr meth args s =
     (case property_key (Number_toString C) meth of
        Inl e \<Rightarrow> (Inl e, s)
      | Inr k \<Rightarrow>
          (case iterate args of
             Inl e \<Rightarrow> (Inl e, s)
           | Inr argv \<Rightarrow>
               if \<not> locator_method C k then (Inl TypeError, s)
               else
                 (case invoke C locatorStr meth argv (page s) of
                    (r, w) \<Rightarrow>
                      (case r of None \<Rightarrow> Inr () | Some e \<Rightarrow> Inl e,
                       s\<lparr>page := w, events := events s @ [Interact locatorStr meth argv]\<rparr>))))"

text \<open>
  The loop of the cache-hit path (lines 315-326): the three property reads, the message
  of \<open>this.log\<close>, the call.
\<close>

fun run_cached ::
  "'w collaborators \<Rightarrow> json list \<Rightarrow> 'w stagehand \<Rightarrow> (error + unit) \<times> 'w stagehand" where
  "run_cached C [] s = (Inr (), s)"
| "run_cached C (command # rest) s =
     (case js_get command ''locator'' of
        Inl e \<Rightarrow> (Inl e, s)
      | Inr locatorStr \<Rightarrow>
          (case js_get command ''method'' of
             Inl e \<Rightarrow> (Inl e, s)
           | Inr meth \<Rightarrow>
               (case js_get command ''args'' of
                  Inl e \<Rightarrow> (Inl e, s)
                | Inr args \<Rightarrow>
                    (case cached_action_message (Number_toString C) meth locatorStr args of
                       Inl e \<Rightarrow> (Inl e, s)
                     | Inr message \<Rightarrow>
                         (case call_method C locatorStr meth args s of
                            (Inl e, s1) \<Rightarrow> (Inl e, s1)
                          | (Inr u, s1) \<Rightarrow> run_cached C rest s1)))))"

text \<open>
  The loop of the cache-miss path (lines 350-362): \<open>selectorMap[element]\<close> converts
  \<open>element\<close> to a property key, which can raise.
\<close>

fun run_resolved ::
  "'w collaborators \<Rightarrow> (string \<rightharpoonup> string) \<Rightarrow> json list \<Rightarrow> 'w stagehand
     \<Rightarrow> (error + unit) \<times> 'w stagehand" where
  "run_resolved C selectorMap [] s = (Inr (), s)"
| "run_resolved C selectorMap (command # rest) s =
     (case js_get command ''element'' of
        Inl e \<Rightarrow> (Inl e, s)
      | Inr element \<Rightarrow>
          (case property_key (Number_toString C) element of
             Inl e \<Rightarrow> (Inl e, s)
           | Inr k \<Rightarrow>
               (let path = selectorMap k
                in case js_get command ''method'' of
                     Inl e \<Rightarrow> (Inl e, s)
                   | Inr meth \<Rightarrow>
                       (case js_get command ''args'' of
                          Inl e \<Rightarrow> (Inl e, s)
                        | Inr args \<Rightarrow>
                            (case taking_action_message (Number_toString C) meth path args of
                               Inl e \<Rightarrow> (Inl e, s)
                             | Inr message \<Rightarrow>
                                 (case call_method C (Some (JStr (xpath_of path))) meth args s of
                                    (Inl e, s1) \<Rightarrow> (Inl e, s1)
                                  | (Inr u, s1) \<Rightarrow> run_resolved C selectorMap rest s1))))))"

text \<open>
  \<open>act\<close> (lines 298-368). The cache-hit branch ends with the \<open>return\<close> of line 328; the
  call of \<open>cacheAction\<close> after the loop of the miss branch is commented out in the source
  (lines 364-365), so it is no part of the function.
\<close>

definition act ::
  "'w collaborators \<Rightarrow> string \<Rightarrow> 'w stagehand \<Rightarrow> (error + unit) \<times> 'w stagehand" where
  "act C action s =
     (let s0 = waitForSettledDom C s;
          key = getKey action
      in case actions s0 key of
           Some cachedAction \<Rightarrow>
             (case JSON_parse C (result cachedAction) of
                Inl e \<Rightarrow> (Inl e, s0)
              | Inr res \<Rightarrow>
                  (case commands_of res of
                     Inl e \<Rightarrow> (Inl e, s0)
                   | Inr commands \<Rightarrow> run_cached C commands s0))
         | None \<Rightarrow>
             (case processElements C (page s0) of
                (Inl e, w1) \<Rightarrow> (Inl e, s0\<lparr>page := w1, events := events s0 @ [Snapshot]\<rparr>)
              | (Inr (outputString, selectorMap), w1) \<Rightarrow>
                  (case inference_act C action outputString w1 of
                     (r, w2) \<Rightarrow>
                       (let s2 = s0\<lparr>page := w2,
                                    events := events s0 @ [Snapshot, OracleActions action outputString]\<rparr>
                        in case r of
                             Inl e \<Rightarrow> (Inl e, s2)
                           | Inr response \<Rightarrow>
                               (case commands_of response of
                                  Inl e \<Rightarrow> (Inl e, s2)
                                | Inr commands \<Rightarrow>
                                    (case run_resolved C selectorMap commands s2 of
                                       (Inl e, s3) \<Rightarrow> (Inl e, s3)
                                     | (Inr u, s3) \<Rightarrow> (Inr (), waitForSettledDom C s3)))))))"

section \<open>Statements about the engine\<close>

text \<open>
  The cache is hit by \<open>observe\<close> when the mirror holds a truthy locator for the key of
  the instruction; \<open>cached_locator\<close> is that locator. \<open>command_json\<close> is the value a
  stored Command parses to: an object with the three members the cache-hit loop reads.
\<close>

definition observe_hits :: "'w stagehand \<Rightarrow> string \<Rightarrow> bool" where
  "observe_hits s observation =
     truthy (map_option JStr (map_option result (observations s (getKey observation))))"

definition cached_locator :: "'w stagehand \<Rightarrow> string \<Rightarrow> string option" where
  "cached_locator s observation = map_option result (observations s (getKey observation))"

definition command_json :: "string \<Rightarrow> string \<Rightarrow> json list \<Rightarrow> json" where
  "command_json l m argv = JObj [(''locator'', JStr l), (''method'', JStr m), (''args'', JArr argv)]"

section \<open>A scripted page and oracle\<close>

text \<open>
  Concrete collaborators, to run the engine on concrete inputs. The world is a page with
  one button: \<open>live\<close> lists the locators that match an attached element, \<open>listing\<close> and
  \<open>selectors\<close> are what a snapshot returns, \<open>locator_reply\<close> and \<open>actions_reply\<close> are
  what the oracle answers, \<open>performed\<close> counts the interactions carried out. Only
  \<open>click\<close> is a method of a locator here. \<open>parse_known\<close> parses the two texts a stored
  click command is serialised to, alone and as a one-element list.
\<close>

text \<open>
  The decimal digits of an integer: what \<open>Number::toString\<close> gives for an integer of at
  most \<open>2 ^ 53\<close> in absolute value. \<open>number_text\<close> is the conversion on these
  integers only: for another number it gives the text \<open>NaN\<close>, which the runtime does
  not. The scripted page has no other number.
\<close>

function nat_to_string :: "nat \<Rightarrow> string" where
  "nat_to_string n =
     (if n < 10 then [''0123456789'' ! n]
      else nat_to_string (n div 10) @ [''0123456789'' ! (n mod 10)])"
  by pat_completeness auto
termination
  by (relation "measure (\<lambda>n. n)") auto

declare nat_to_string.simps [simp del]

definition int_to_string :: "int \<Rightarrow> string" where
  "int_to_string i = (if i < 0 then ''-'' @ nat_to_string (nat (- i)) else nat_to_string (nat i))"

definition number_text :: "rat \<Rightarrow> string" where
  "number_text r =
     (if r = of_int \<lfloor>r\<rfloor> \<and> \<bar>r\<bar> \<le> 2 ^ 53 then int_to_string \<lfloor>r\<rfloor> else ''NaN'')"

record world =
  live :: "string list"
  listing :: string
  selectors :: "(string \<times> string) list"
  locator_reply :: "string option"
  actions_reply :: json
  performed :: nat

definition click_text :: string where
  "click_text = ''{\"locator\":\"xpath=//button\",\"method\":\"click\",\"args\":[]}''"

definition click_command :: json where
  "click_command = command_json ''xpath=//button'' ''click'' []"

definition parse_known :: "string \<Rightarrow> error + json" where
  "parse_known t =
     (if t = click_text then Inr click_command
      else if t = ''['' @ click_text @ '']'' then Inr (JArr [click_command])
      else Inl SyntaxError)"

definition scripted :: "world collaborators" where
  "scripted =
     \<lparr>waitForDomSettle = (\<lambda>w. (None, w)),
      processElements = (\<lambda>w. (Inr (listing w, map_of (selectors w)), w)),
      chat_completion = (\<lambda>instruction dom w. (Inr (locator_reply w), w)),
      inference_act = (\<lambda>action dom w. (Inr (actions_reply w), w)),
      attached = (\<lambda>w l. l \<in> set (live w)),
      locator_method = (\<lambda>k. k = ''click''),
      invoke = (\<lambda>l m argv w.
        if m = Some (JStr ''click'') then (None, w\<lparr>performed := Suc (performed w)\<rparr>)
        else (Some TypeError, w)),
      JSON_parse = parse_known,
      Number_toString = number_text\<rparr>"

definition submit_page :: world where
  "submit_page =
     \<lparr>live = [''xpath=//button''], listing = ''0: button Submit'',
      selectors = [(''0'', ''//button'')], locator_reply = Some ''0'',
      actions_reply = JObj [(''element'', JNum 0), (''method'', JStr ''click''), (''args'', JArr [])],
      performed = 0\<rparr>"

definition not_found_page :: world where
  "not_found_page = submit_page\<lparr>locator_reply := Some ''NONE''\<rparr>"

definition detached_page :: world where
  "detached_page = submit_page\<lparr>live := []\<rparr>"

definition silent_page :: world where
  "silent_page = submit_page\<lparr>locator_reply := None, actions_reply := JArr []\<rparr>"

definition button_entry :: entry where
  "button_entry = \<lparr>result = ''xpath=//button'', id_entry = None\<rparr>"

definition single_entry :: entry where
  "single_entry = \<lparr>result = click_text, id_entry = None\<rparr>"

definition listed_entry :: entry where
  "listed_entry = \<lparr>result = ''['' @ click_text @ '']'', id_entry = None\<rparr>"

lemmas demo_defs =
  new_Stagehand_def scripted_def submit_page_def not_found_page_def detached_page_def
  silent_page_def button_entry_def single_entry_def listed_entry_def
  readObservations_def readActions_def writeObservations_def

lemmas engine_defs =
  observe_def act_def expect_toBeAttached_def cacheObservation_def waitForSettledDom_def
  call_method_def commands_of_def xpath_of_def property_key_def js_to_string_def
  cached_action_message_def taking_action_message_def number_text_def int_to_string_def
  nat_to_string.simps oracle_calls_def interactions_def observe_hits_def cached_locator_def
  Let_def

section \<open>Frame and counting lemmas\<close>

lemma code_points_Cons: "code_points (c # cs) \<noteq> []"
  by (simp split: list.splits)

lemma utf16_length_eq_0: "utf16_length s = 0 \<longleftrightarrow> s = []"
proof (cases s)
  case Nil
  then show ?thesis by (simp add: utf16_length_def)
next
  case (Cons c cs)
  then obtain p ps where "code_points s = p # ps"
    using code_points_Cons [of c cs] by (cases "code_points s") auto
  with Cons show ?thesis by (simp add: utf16_length_def)
qed

lemma stringable_primitive:
  "stringable JNull" "stringable (JBool b)" "stringable (JNum n)" "stringable (JStr s)"
  by simp_all

lemma truthy_JStr: "truthy (map_option JStr x) = (\<exists>l. x = Some l \<and> l \<noteq> [])"
  by (cases x) auto

lemma call_method_frame:
  "call_method C l m a s = (r, s1) \<Longrightarrow>
     observations s1 = observations s \<and> actions s1 = actions s \<and> cache s1 = cache s \<and>
     id_session s1 = id_session s \<and> oracle_calls s1 = oracle_calls s"
  by (auto simp: call_method_def oracle_calls_def split: sum.splits prod.splits if_splits)

lemma run_cached_frame:
  "run_cached C cs s = (r, s1) \<Longrightarrow>
     observations s1 = observations s \<and> actions s1 = actions s \<and> cache s1 = cache s \<and>
     id_session s1 = id_session s \<and> oracle_calls s1 = oracle_calls s"
proof (induction cs arbitrary: s)
  case Nil
  then show ?case by simp
next
  case (Cons c cs)
  from Cons.prems show ?case
    by (auto split: sum.splits prod.splits dest!: call_method_frame Cons.IH)
qed

lemma run_resolved_frame:
  "run_resolved C sm cs s = (r, s1) \<Longrightarrow>
     observations s1 = observations s \<and> actions s1 = actions s \<and> cache s1 = cache s \<and>
     id_session s1 = id_session s \<and> oracle_calls s1 = oracle_calls s"
proof (induction cs arbitrary: s)
  case Nil
  then show ?case by simp
next
  case (Cons c cs)
  from Cons.prems show ?case
    by (auto simp: Let_def split: sum.splits prod.splits dest!: call_method_frame Cons.IH)
qed

lemma waitForSettledDom_frame:
  "observations (waitForSettledDom C s) = observations s \<and>
   actions (waitForSettledDom C s) = actions s \<and> cache (waitForSettledDom C s) = cache s \<and>
   id_session (waitForSettledDom C s) = id_session s \<and>
   oracle_calls (waitForSettledDom C s) = oracle_calls s \<and>
   events (waitForSettledDom C s) = events s @ [Settle]"
  by (simp add: waitForSettledDom_def oracle_calls_def split: prod.splits)

lemma act_frame:
  assumes "act C action s = (r, s1)"
  shows "observations s1 = observations s \<and> actions s1 = actions s \<and> cache s1 = cache s"
  using assms waitForSettledDom_frame [of C s]
  unfolding act_def
  by (auto simp: Let_def waitForSettledDom_frame
      split: option.splits sum.splits prod.splits
      dest!: run_cached_frame run_resolved_frame)

lemma act_miss_oracle_calls:
  assumes "actions s (getKey action) = None"
    and "fst (processElements C (page (waitForSettledDom C s))) = Inr snap"
  shows "oracle_calls (snd (act C action s)) = Suc (oracle_calls s)"
proof -
  let ?s0 = "waitForSettledDom C s"
  have a0: "actions ?s0 (getKey action) = None"
    using assms(1) by (simp add: waitForSettledDom_frame)
  obtain outputString selectorMap w1 where
    pe: "processElements C (page ?s0) = (Inr (outputString, selectorMap), w1)"
    using assms(2) by (cases "processElements C (page ?s0)"; cases snap) auto
  obtain r w2 where ia: "inference_act C action outputString w1 = (r, w2)"
    by (cases "inference_act C action outputString w1")
  let ?s2 = "?s0\<lparr>page := w2, events := events ?s0 @ [Snapshot, OracleActions action outputString]\<rparr>"
  have c2: "oracle_calls ?s2 = Suc (oracle_calls s)"
    by (simp add: oracle_calls_def waitForSettledDom_frame)
  show ?thesis
  proof (cases r)
    case (Inl e)
    with a0 pe ia c2 show ?thesis by (simp add: act_def Let_def)
  next
    case resp: (Inr response)
    show ?thesis
    proof (cases "commands_of response")
      case (Inl e)
      with a0 pe ia c2 resp show ?thesis by (simp add: act_def Let_def)
    next
      case cs: (Inr commands)
      obtain r3 s3 where rr: "run_resolved C selectorMap commands ?s2 = (r3, s3)"
        by (cases "run_resolved C selectorMap commands ?s2")
      from run_resolved_frame [OF rr] c2 have c3: "oracle_calls s3 = Suc (oracle_calls s)"
        by simp
      show ?thesis
      proof (cases r3)
        case (Inl e)
        with a0 pe ia resp cs rr c3 show ?thesis by (simp add: act_def Let_def)
      next
        case (Inr u)
        with a0 pe ia resp cs rr c3 show ?thesis
          by (simp add: act_def Let_def waitForSettledDom_frame)
      qed
    qed
  qed
qed

lemma act_miss_ends_settled:
  assumes "actions s (getKey action) = None"
    and "act C action s = (Inr (), s1)"
  shows "\<exists>es. events s1 = es @ [Settle]"
  using assms unfolding act_def
  by (auto simp: Let_def waitForSettledDom_frame
      split: option.splits sum.splits prod.splits)

text \<open>On the cache-hit path, whatever the outcome, everything after the first \<open>Settle\<close> is an interaction.\<close>

lemma call_method_events:
  "call_method C l m a s = (r, s1) \<Longrightarrow>
     \<exists>es. events s1 = events s @ es \<and> list_all is_interact es"
  by (auto simp: call_method_def split: sum.splits prod.splits if_splits)

lemma run_cached_events:
  "run_cached C cs s = (r, s1) \<Longrightarrow>
     \<exists>es. events s1 = events s @ es \<and> list_all is_interact es"
proof (induction cs arbitrary: s)
  case Nil
  then show ?case by simp
next
  case (Cons c cs)
  have step: "\<exists>es. events s1 = events s @ es \<and> list_all is_interact es"
    if cm: "call_method C l m a s = (Inr u, s2)" and rest: "run_cached C cs s2 = (r, s1)"
    for l m a u s2
  proof -
    from call_method_events [OF cm] obtain es1 where
      es1: "events s2 = events s @ es1" "list_all is_interact es1"
      by blast
    from Cons.IH [OF rest] obtain es2 where
      es2: "events s1 = events s2 @ es2" "list_all is_interact es2"
      by blast
    from es1 es2 have "events s1 = events s @ (es1 @ es2) \<and> list_all is_interact (es1 @ es2)"
      by simp
    then show ?thesis by blast
  qed
  from Cons.prems show ?case
    by (auto split: sum.splits prod.splits dest: call_method_events step)
qed

lemma act_hit_events:
  assumes "actions s (getKey action) = Some e"
    and "act C action s = (r, s1)"
  shows "\<exists>es. events s1 = events s @ Settle # es \<and> list_all is_interact es"
proof -
  let ?s0 = "waitForSettledDom C s"
  have a0: "actions ?s0 (getKey action) = Some e"
    using assms(1) by (simp add: waitForSettledDom_frame)
  have e0: "events ?s0 = events s @ [Settle]"
    by (simp add: waitForSettledDom_frame)
  show ?thesis
  proof (cases "JSON_parse C (result e)")
    case (Inl err)
    with a0 assms(2) e0 show ?thesis by (auto simp: act_def Let_def)
  next
    case p: (Inr res)
    show ?thesis
    proof (cases "commands_of res")
      case (Inl err)
      with a0 assms(2) e0 p show ?thesis by (auto simp: act_def Let_def)
    next
      case (Inr commands)
      with a0 assms(2) p have "run_cached C commands ?s0 = (r, s1)"
        by (simp add: act_def Let_def)
      from run_cached_events [OF this] e0 show ?thesis by auto
    qed
  qed
qed

text \<open>
  With caching disabled at construction, two consecutive \<open>act\<close> calls each query the
  oracle, whenever their snapshots are delivered.
\<close>

lemma act_twice_disabled_cache:
  assumes "act C action (new_Stagehand True v obs_table act_table w) = (r1, s1)"
    and "fst (processElements C
           (page (waitForSettledDom C (new_Stagehand True v obs_table act_table w)))) = Inr snap1"
    and "fst (processElements C (page (waitForSettledDom C s1))) = Inr snap2"
  shows "oracle_calls s1 = 1 \<and> oracle_calls (snd (act C action s1)) = 2"
proof -
  let ?s = "new_Stagehand True v obs_table act_table w :: 'a stagehand"
  have m0: "actions ?s (getKey action) = None"
    by (simp add: new_Stagehand_def readActions_def Let_def)
  have z: "oracle_calls ?s = 0"
    by (simp add: new_Stagehand_def oracle_calls_def Let_def)
  from act_miss_oracle_calls [OF m0 assms(2)] assms(1) z have c1: "oracle_calls s1 = 1"
    by simp
  from act_frame [OF assms(1)] m0 have m1: "actions s1 (getKey action) = None"
    by simp
  from act_miss_oracle_calls [OF m1 assms(3)] c1 show ?thesis
    by simp
qed

section \<open>The digest\<close>

lemma hex32_length: "length (hex32 w) = 8"
  by (simp add: hex32_def)

lemma nibble_bound: "unat ((x :: u32) AND 0xf) < 16"
proof -
  have "unat (x AND 0xf) \<le> unat (0xf :: u32)"
    by (rule word_and_le1 [THEN word_le_nat_alt [THEN iffD1]])
  then show ?thesis by simp
qed

lemma hexdigit_hex: "n < 16 \<Longrightarrow> hexdigit n \<in> set ''0123456789abcdef''"
  unfolding hexdigit_def by (rule nth_mem) simp

lemma hex32_hex: "set (hex32 w) \<subseteq> set ''0123456789abcdef''"
  unfolding hex32_def using hexdigit_hex [OF nibble_bound] by auto

lemma digest_hex_length: "length (digest_hex h) = 64"
  by (cases h rule: digest_hex.cases) (simp add: hex32_length)

lemma digest_hex_hex: "set (digest_hex h) \<subseteq> set ''0123456789abcdef''"
  using hex32_hex by (cases h rule: digest_hex.cases) (simp del: set_simps)

text \<open>The test vector of FIPS 180-4 for the message \<open>abc\<close>.\<close>

lemma getKey_abc:
  "getKey ''abc'' = ''ba7816bf8f01cfea414140de5dae2223b00361a396177a9cb410ff61f20015ad''"
  by code_simp

section \<open>The claims\<close>

text \<open>
  Claim C1: on both the cache-hit path and the cache-miss path, \<open>act\<close> waits for document
  quiescence after executing its commands and before returning.

  The miss path does (\<open>act_miss_ends_settled\<close>). The hit path does not: it returns at
  line 328, right after its loop, so that its only \<open>Settle\<close> is the one of line 299,
  before the commands (\<open>act_hit_events\<close>). Evaluated on the scripted page with the
  instruction \<open>click on Submit\<close>: with a stored click command the call returns normally
  and the last thing it did is the click. With an empty cache the same instruction ends
  with a \<open>Settle\<close> after the click.
\<close>

theorem act_hit_returns_unsettled:
  "fst (act scripted ''click on Submit''
          (new_Stagehand False False Map.empty [getKey ''click on Submit'' \<mapsto> single_entry] submit_page))
     = Inr ()
   \<and> events (snd (act scripted ''click on Submit''
          (new_Stagehand False False Map.empty [getKey ''click on Submit'' \<mapsto> single_entry] submit_page)))
     = [Settle, Interact (Some (JStr ''xpath=//button'')) (Some (JStr ''click'')) []]
   \<and> events (snd (act scripted ''click on Submit''
          (new_Stagehand False False Map.empty Map.empty submit_page)))
     = [Settle, Snapshot, OracleActions ''click on Submit'' ''0: button Submit'',
        Interact (Some (JStr ''xpath=//button'')) (Some (JStr ''click'')) [], Settle]"
  by (simp add: demo_defs engine_defs parse_known_def click_command_def command_json_def)

text \<open>
  Claim C2: when caching is disabled at construction, every resolution falls through to
  the oracle: each of two identical consecutive \<open>observe\<close> calls, and each of two
  identical consecutive \<open>act\<close> calls, invokes the oracle.

  For \<open>act\<close> this holds (\<open>act_twice_disabled_cache\<close>). For \<open>observe\<close> it does not:
  \<open>cacheObservation\<close> writes the in-memory mirror whether or not the cache is disabled
  (line 283); only the write to the durable table is switched off. Evaluated on the
  scripted page with \<open>disableCache = true\<close>: both calls return the key, the first one
  queries the oracle, and the second one is served from the mirror, so the count of
  oracle calls is still one after it.
\<close>

theorem disabled_cache_observe_served_from_mirror:
  "disabled (cache (new_Stagehand True False Map.empty Map.empty submit_page))
   \<and> fst (observe scripted ''the submit button''
          (new_Stagehand True False Map.empty Map.empty submit_page))
     = Inr (Some (getKey ''the submit button''))
   \<and> oracle_calls (snd (observe scripted ''the submit button''
          (new_Stagehand True False Map.empty Map.empty submit_page))) = 1
   \<and> fst (observe scripted ''the submit button''
          (snd (observe scripted ''the submit button''
             (new_Stagehand True False Map.empty Map.empty submit_page))))
     = Inr (Some (getKey ''the submit button''))
   \<and> oracle_calls (snd (observe scripted ''the submit button''
          (snd (observe scripted ''the submit button''
             (new_Stagehand True False Map.empty Map.empty submit_page))))) = 1"
  by (simp add: demo_defs engine_defs)

text \<open>
  Claim C3: an \<open>act\<close> call that misses the cache does not persist what it resolved.
  When such a call ends, normally or with an error \<open>r\<close>, the mirror \<open>actions\<close> and
  the cache (both durable tables) are what they were before the call, and so is the
  mirror \<open>observations\<close>; and a repeated call with the same instruction, on whatever
  page, queries the oracle once more, whenever its snapshot of the page is delivered (the
  oracle is asked about a snapshot, so there is no query without one).
\<close>

theorem act_miss_not_persisted:
  assumes "actions s (getKey action) = None"
    and "act C action s = (r, s1)"
  shows "actions s1 = actions s \<and> cache s1 = cache s \<and> observations s1 = observations s \<and>
         (\<forall>w snap. fst (processElements C (page (waitForSettledDom C (s1\<lparr>page := w\<rparr>)))) = Inr snap
            \<longrightarrow> oracle_calls (snd (act C action (s1\<lparr>page := w\<rparr>))) = Suc (oracle_calls s1))"
proof -
  note fr = act_frame [OF assms(2)]
  have "oracle_calls (snd (act C action (s1\<lparr>page := w\<rparr>))) = Suc (oracle_calls s1)"
    if "fst (processElements C (page (waitForSettledDom C (s1\<lparr>page := w\<rparr>)))) = Inr snap"
    for w snap
  proof -
    have "actions (s1\<lparr>page := w\<rparr>) (getKey action) = None"
      using fr assms(1) by simp
    from act_miss_oracle_calls [OF this that] show ?thesis
      by (simp add: oracle_calls_def)
  qed
  with fr show ?thesis by blast
qed

theorem act_miss_not_persisted_witness:
  "actions (new_Stagehand False False Map.empty Map.empty submit_page) (getKey ''click on Submit'') = None
   \<and> fst (act scripted ''click on Submit''
          (new_Stagehand False False Map.empty Map.empty submit_page)) = Inr ()
   \<and> actions (snd (act scripted ''click on Submit''
          (new_Stagehand False False Map.empty Map.empty submit_page))) = Map.empty
   \<and> actions_table (cache (snd (act scripted ''click on Submit''
          (new_Stagehand False False Map.empty Map.empty submit_page)))) = Map.empty
   \<and> oracle_calls (snd (act scripted ''click on Submit''
          (new_Stagehand False False Map.empty Map.empty submit_page))) = 1
   \<and> oracle_calls (snd (act scripted ''click on Submit''
          (snd (act scripted ''click on Submit''
             (new_Stagehand False False Map.empty Map.empty submit_page))))) = 2"
proof -
  let ?s = "new_Stagehand False False Map.empty Map.empty submit_page :: world stagehand"
  let ?s1 = "snd (act scripted ''click on Submit'' ?s)"
  have h1: "actions ?s (getKey ''click on Submit'') = None"
    by (simp add: demo_defs)
  have f: "fst (act scripted ''click on Submit'' ?s) = Inr ()"
    by (simp add: demo_defs engine_defs)
  then have h2: "act scripted ''click on Submit'' ?s = (Inr (), ?s1)"
    by (simp add: prod_eq_iff)
  have pg: "?s1\<lparr>page := page ?s1\<rparr> = ?s1"
    by simp
  have n1: "oracle_calls ?s1 = 1"
    by (simp add: demo_defs engine_defs)
  have snap: "fst (processElements scripted (page (waitForSettledDom scripted (?s1\<lparr>page := page ?s1\<rparr>))))
      = Inr (''0: button Submit'', map_of [(''0'', ''//button'')])"
    by (simp add: demo_defs engine_defs)
  note main = act_miss_not_persisted [OF h1 h2]
  from main have again:
    "oracle_calls (snd (act scripted ''click on Submit'' (?s1\<lparr>page := page ?s1\<rparr>))) = Suc (oracle_calls ?s1)"
    using snap by blast
  from main have frame: "actions ?s1 = actions ?s" "cache ?s1 = cache ?s"
    by simp_all
  have "actions ?s = Map.empty" "actions_table (cache ?s) = Map.empty"
    by (simp_all add: demo_defs)
  with h1 f n1 again frame show ?thesis
    unfolding pg by simp
qed

text \<open>
  Claim C4: if the target locator of an \<open>observe\<close> call matches no attached element, the
  call raises, and the mirror \<open>observations\<close> and the cache are unchanged. First
  conjunct: the locator is read from the cache (a hit). Second conjunct: the locator is
  built from the selector map for the element id the oracle returned (a miss).
\<close>

theorem observe_unattached:
  "(observations s (getKey instruction) = Some e \<and> result e \<noteq> [] \<and>
      \<not> attached C (page s) (result e)
    \<longrightarrow> fst (observe C instruction s) = Inl ExpectError
        \<and> observations (snd (observe C instruction s)) = observations s
        \<and> cache (snd (observe C instruction s)) = cache s)
   \<and>
   (\<not> observe_hits s instruction \<and>
      processElements C (page s) = (Inr (outputString, selectorMap), w1) \<and>
      chat_completion C instruction outputString w1 = (Inr (Some elementId), w2) \<and>
      elementId \<noteq> [] \<and> elementId \<noteq> ''NONE'' \<and>
      \<not> attached C w2 (xpath_of (selectorMap elementId))
    \<longrightarrow> fst (observe C instruction s) = Inl ExpectError
        \<and> observations (snd (observe C instruction s)) = observations s
        \<and> cache (snd (observe C instruction s)) = cache s)"
  unfolding observe_def observe_hits_def expect_toBeAttached_def
  by (simp add: Let_def)

theorem observe_unattached_witness:
  "observations (new_Stagehand False False [getKey ''the submit button'' \<mapsto> button_entry]
       Map.empty detached_page) (getKey ''the submit button'') = Some button_entry
   \<and> \<not> attached scripted detached_page (result button_entry)
   \<and> fst (observe scripted ''the submit button''
        (new_Stagehand False False [getKey ''the submit button'' \<mapsto> button_entry]
           Map.empty detached_page)) = Inl ExpectError
   \<and> observations (snd (observe scripted ''the submit button''
        (new_Stagehand False False [getKey ''the submit button'' \<mapsto> button_entry]
           Map.empty detached_page))) = [getKey ''the submit button'' \<mapsto> button_entry]
   \<and> \<not> observe_hits (new_Stagehand False False Map.empty Map.empty detached_page) ''the submit button''
   \<and> \<not> attached scripted detached_page ''xpath=//button''
   \<and> fst (observe scripted ''the submit button''
        (new_Stagehand False False Map.empty Map.empty detached_page)) = Inl ExpectError
   \<and> observations (snd (observe scripted ''the submit button''
        (new_Stagehand False False Map.empty Map.empty detached_page))) = Map.empty"
proof -
  let ?hit = "new_Stagehand False False [getKey ''the submit button'' \<mapsto> button_entry]
       Map.empty detached_page :: world stagehand"
  let ?miss = "new_Stagehand False False Map.empty Map.empty detached_page :: world stagehand"
  have a: "observations ?hit (getKey ''the submit button'') = Some button_entry \<and>
      result button_entry \<noteq> [] \<and> \<not> attached scripted (page ?hit) (result button_entry)"
    by (simp add: demo_defs)
  have b: "\<not> observe_hits ?miss ''the submit button'' \<and>
      processElements scripted (page ?miss) =
        (Inr (''0: button Submit'', map_of [(''0'', ''//button'')]), detached_page) \<and>
      chat_completion scripted ''the submit button'' ''0: button Submit'' detached_page =
        (Inr (Some ''0''), detached_page) \<and>
      ''0'' \<noteq> [] \<and> ''0'' \<noteq> ''NONE'' \<and>
      \<not> attached scripted detached_page (xpath_of (map_of [(''0'', ''//button'')] ''0''))"
    by (simp add: demo_defs observe_hits_def xpath_of_def)
  note hit = observe_unattached [THEN conjunct1, THEN mp, OF a]
  note miss = observe_unattached [THEN conjunct2, THEN mp, OF b]
  from hit miss a b show ?thesis
    by (simp add: demo_defs xpath_of_def)
qed

text \<open>
  Claim C5: if an \<open>observe\<close> call misses the cache and the oracle answers \<open>NONE\<close>, the
  call returns \<open>null\<close>, raises nothing and writes nothing: the state after the call
  differs from the state before only in the page and in the record of the two
  collaborator calls.
\<close>

theorem observe_not_found:
  assumes "\<not> observe_hits s instruction"
    and "processElements C (page s) = (Inr (outputString, selectorMap), w1)"
    and "chat_completion C instruction outputString w1 = (Inr (Some ''NONE''), w2)"
  shows "observe C instruction s =
           (Inr None, s\<lparr>page := w2,
                        events := events s @ [Snapshot, OracleLocator instruction outputString]\<rparr>)
         \<and> observations (snd (observe C instruction s)) = observations s
         \<and> cache (snd (observe C instruction s)) = cache s"
  using assms unfolding observe_def observe_hits_def
  by (simp add: Let_def)

theorem observe_not_found_witness:
  "\<not> observe_hits (new_Stagehand False False Map.empty Map.empty not_found_page) ''the price label''
   \<and> fst (observe scripted ''the price label''
            (new_Stagehand False False Map.empty Map.empty not_found_page)) = Inr None
   \<and> observations (snd (observe scripted ''the price label''
            (new_Stagehand False False Map.empty Map.empty not_found_page))) = Map.empty
   \<and> observations_table (cache (snd (observe scripted ''the price label''
            (new_Stagehand False False Map.empty Map.empty not_found_page)))) = Map.empty"
proof -
  let ?s = "new_Stagehand False False Map.empty Map.empty not_found_page :: world stagehand"
  have h1: "\<not> observe_hits ?s ''the price label''"
    by (simp add: demo_defs observe_hits_def)
  have h2: "processElements scripted (page ?s) =
      (Inr (''0: button Submit'', map_of [(''0'', ''//button'')]), not_found_page)"
    by (simp add: demo_defs)
  have h3: "chat_completion scripted ''the price label'' ''0: button Submit'' not_found_page =
      (Inr (Some ''NONE''), not_found_page)"
    by (simp add: demo_defs)
  from observe_not_found [OF h1 h2 h3] h1 show ?thesis
    by (simp add: demo_defs)
qed

text \<open>
  Claim C6: after an \<open>observe\<close> call that returned a key, a second \<open>observe\<close> call
  with the same instruction does not invoke the oracle. The first call leaves a non-empty
  locator in the mirror; on whatever page \<open>w\<close> the second call runs, the count of oracle
  calls does not change, and the call returns the same key provided the cached locator is
  attached in \<open>w\<close> (it raises otherwise).
\<close>

theorem observe_hit_skips_oracle:
  assumes "observe C instruction s = (Inr (Some k), s1)"
  shows "\<exists>l. cached_locator s1 instruction = Some l \<and> l \<noteq> [] \<and>
           oracle_calls (snd (observe C instruction (s1\<lparr>page := w\<rparr>))) = oracle_calls s1 \<and>
           fst (observe C instruction (s1\<lparr>page := w\<rparr>)) =
             (if attached C w l then Inr (Some k) else Inl ExpectError)"
proof -
  have key: "k = getKey instruction"
    using assms unfolding observe_def cacheObservation_def expect_toBeAttached_def
    by (auto simp: Let_def split: prod.splits sum.splits if_splits option.splits)
  have "\<exists>e. observations s1 (getKey instruction) = Some e \<and> result e \<noteq> []"
    using assms unfolding observe_def cacheObservation_def expect_toBeAttached_def xpath_of_def
    by (auto simp: Let_def truthy_JStr split: prod.splits sum.splits if_splits option.splits)
  then obtain e where e: "observations s1 (getKey instruction) = Some e" "result e \<noteq> []"
    by blast
  have "oracle_calls (snd (observe C instruction (s1\<lparr>page := w\<rparr>))) = oracle_calls s1"
    using e unfolding observe_def expect_toBeAttached_def oracle_calls_def
    by (simp add: Let_def)
  moreover have "fst (observe C instruction (s1\<lparr>page := w\<rparr>)) =
      (if attached C w (result e) then Inr (Some k) else Inl ExpectError)"
    using e key unfolding observe_def expect_toBeAttached_def
    by (simp add: Let_def)
  ultimately show ?thesis
    using e by (auto simp: cached_locator_def)
qed

theorem observe_hit_skips_oracle_witness:
  "fst (observe scripted ''the submit button''
          (new_Stagehand False False Map.empty Map.empty submit_page))
     = Inr (Some (getKey ''the submit button''))
   \<and> oracle_calls (snd (observe scripted ''the submit button''
          (new_Stagehand False False Map.empty Map.empty submit_page))) = 1
   \<and> attached scripted submit_page ''xpath=//button''
   \<and> fst (observe scripted ''the submit button''
          (snd (observe scripted ''the submit button''
             (new_Stagehand False False Map.empty Map.empty submit_page))))
     = Inr (Some (getKey ''the submit button''))
   \<and> oracle_calls (snd (observe scripted ''the submit button''
          (snd (observe scripted ''the submit button''
             (new_Stagehand False False Map.empty Map.empty submit_page))))) = 1"
proof -
  let ?s = "new_Stagehand False False Map.empty Map.empty submit_page :: world stagehand"
  let ?s1 = "snd (observe scripted ''the submit button'' ?s)"
  have f: "fst (observe scripted ''the submit button'' ?s) = Inr (Some (getKey ''the submit button''))"
    by (simp add: demo_defs engine_defs)
  then have h: "observe scripted ''the submit button'' ?s = (Inr (Some (getKey ''the submit button'')), ?s1)"
    by (simp add: prod_eq_iff)
  have pg: "?s1\<lparr>page := submit_page\<rparr> = ?s1"
    by (simp add: demo_defs engine_defs)
  have loc: "cached_locator ?s1 ''the submit button'' = Some ''xpath=//button''"
    by (simp add: demo_defs engine_defs)
  have n1: "oracle_calls ?s1 = 1"
    by (simp add: demo_defs engine_defs)
  have att: "attached scripted submit_page ''xpath=//button''"
    by (simp add: demo_defs)
  from observe_hit_skips_oracle [OF h, of submit_page] f n1 att show ?thesis
    unfolding pg loc by auto
qed

text \<open>
  Claim C7: on a cache hit of \<open>act\<close>, a stored result that parses to a single Command and
  one that parses to the one-element list of that Command execute identically: the
  results, the pages and the collaborator calls of the two runs are equal. When every
  argument of the Command can be converted to a string (every primitive value can) and
  its method is an interaction primitive of a locator, each run performs exactly one
  interaction, with the locator, the method and the arguments of the Command, and ends
  as that one call of the method ends. Otherwise both runs raise before any interaction:
  in building the message of \<open>this.log\<close> (line 322), or in calling what is no function
  (line 325).
\<close>

theorem act_hit_normalization:
  assumes "actions s1 (getKey action) = Some e1"
    and "actions s2 (getKey action) = Some e2"
    and "JSON_parse C (result e1) = Inr (command_json l m argv)"
    and "JSON_parse C (result e2) = Inr (JArr [command_json l m argv])"
    and "page s1 = page s2"
    and "events s1 = events s2"
  shows "fst (act C action s1) = fst (act C action s2)
       \<and> page (snd (act C action s1)) = page (snd (act C action s2))
       \<and> events (snd (act C action s1)) = events (snd (act C action s2))
       \<and> (if list_all stringable argv \<and> locator_method C m
          then events (snd (act C action s1)) =
                 events s1 @ [Settle, Interact (Some (JStr l)) (Some (JStr m)) argv]
             \<and> fst (act C action s1) =
                 (case fst (invoke C (Some (JStr l)) (Some (JStr m)) argv
                              (page (waitForSettledDom C s1))) of
                    None \<Rightarrow> Inr ()
                  | Some e \<Rightarrow> Inl e)
          else events (snd (act C action s1)) = events s1 @ [Settle]
             \<and> fst (act C action s1) = Inl TypeError)"
proof -
  have c1: "commands_of (command_json l m argv) = Inr [command_json l m argv]"
    by (simp add: commands_of_def command_json_def)
  have c2: "commands_of (JArr [command_json l m argv]) = Inr [command_json l m argv]"
    by (simp add: commands_of_def)
  have run: "run_cached C [command_json l m argv] st =
      (if list_all stringable argv \<and> locator_method C m
       then (case invoke C (Some (JStr l)) (Some (JStr m)) argv (page st) of
               (r, w) \<Rightarrow>
                 (case r of None \<Rightarrow> Inr () | Some e \<Rightarrow> Inl e,
                  st\<lparr>page := w,
                     events := events st @ [Interact (Some (JStr l)) (Some (JStr m)) argv]\<rparr>))
       else (Inl TypeError, st))"
    for st :: "'a stagehand"
    by (auto simp: command_json_def call_method_def cached_action_message_def js_to_string_def
        property_key_def split: prod.splits option.splits)
  have a1: "act C action s1 = run_cached C [command_json l m argv] (waitForSettledDom C s1)"
    using assms(1,3) c1 by (simp add: act_def Let_def waitForSettledDom_frame)
  have a2: "act C action s2 = run_cached C [command_json l m argv] (waitForSettledDom C s2)"
    using assms(2,4) c2 by (simp add: act_def Let_def waitForSettledDom_frame)
  have pg: "page (waitForSettledDom C s1) = page (waitForSettledDom C s2)"
    using assms(5) by (simp add: waitForSettledDom_def split: prod.splits)
  show ?thesis
  proof (cases "list_all stringable argv \<and> locator_method C m")
    case True
    with assms(5,6) pg show ?thesis
      unfolding a1 a2 run
      by (auto simp: waitForSettledDom_frame split: prod.splits option.splits)
  next
    case False
    then have stop: "run_cached C [command_json l m argv] st = (Inl TypeError, st)"
      for st :: "'a stagehand"
      unfolding run by (rule if_not_P)
    from False assms(6) show ?thesis
      unfolding a1 a2 stop
      by (simp only: if_not_P not_False_eq_True fst_conv snd_conv pg) 
        (simp add: waitForSettledDom_frame)
  qed
qed

theorem act_hit_normalization_witness:
  "JSON_parse scripted (result single_entry) = Inr (command_json ''xpath=//button'' ''click'' [])
   \<and> JSON_parse scripted (result listed_entry)
       = Inr (JArr [command_json ''xpath=//button'' ''click'' []])
   \<and> list_all stringable []
   \<and> locator_method scripted ''click''
   \<and> fst (act scripted ''click on Submit''
          (new_Stagehand False False Map.empty [getKey ''click on Submit'' \<mapsto> single_entry] submit_page))
       = Inr ()
   \<and> fst (act scripted ''click on Submit''
          (new_Stagehand False False Map.empty [getKey ''click on Submit'' \<mapsto> listed_entry] submit_page))
       = Inr ()
   \<and> events (snd (act scripted ''click on Submit''
          (new_Stagehand False False Map.empty [getKey ''click on Submit'' \<mapsto> single_entry] submit_page)))
       = [Settle, Interact (Some (JStr ''xpath=//button'')) (Some (JStr ''click'')) []]
   \<and> events (snd (act scripted ''click on Submit''
          (new_Stagehand False False Map.empty [getKey ''click on Submit'' \<mapsto> listed_entry] submit_page)))
       = [Settle, Interact (Some (JStr ''xpath=//button'')) (Some (JStr ''click'')) []]
   \<and> performed (page (snd (act scripted ''click on Submit''
          (new_Stagehand False False Map.empty [getKey ''click on Submit'' \<mapsto> listed_entry] submit_page))))
       = 1"
proof -
  let ?s1 = "new_Stagehand False False Map.empty [getKey ''click on Submit'' \<mapsto> single_entry]
      submit_page :: world stagehand"
  let ?s2 = "new_Stagehand False False Map.empty [getKey ''click on Submit'' \<mapsto> listed_entry]
      submit_page :: world stagehand"
  have h1: "actions ?s1 (getKey ''click on Submit'') = Some single_entry"
    and h2: "actions ?s2 (getKey ''click on Submit'') = Some listed_entry"
    by (simp_all add: demo_defs)
  have h3: "JSON_parse scripted (result single_entry) = Inr (command_json ''xpath=//button'' ''click'' [])"
    by (simp add: demo_defs parse_known_def click_command_def)
  have h4: "JSON_parse scripted (result listed_entry)
      = Inr (JArr [command_json ''xpath=//button'' ''click'' []])"
    by (simp add: demo_defs parse_known_def click_command_def click_text_def)
  have h5: "page ?s1 = page ?s2" and h6: "events ?s1 = events ?s2"
    by (simp_all add: demo_defs)
  have st: "list_all stringable []"
    by simp
  have lm: "locator_method scripted ''click''"
    by (simp add: scripted_def)
  have r: "fst (act scripted ''click on Submit'' ?s2) = Inr ()"
    "performed (page (snd (act scripted ''click on Submit'' ?s2))) = 1"
    using h4 by (simp_all add: demo_defs engine_defs command_json_def)
  have e: "events ?s1 = []"
    by (simp add: demo_defs)
  note main = act_hit_normalization [OF h1 h2 h3 h4 h5 h6]
  have c1: "fst (act scripted ''click on Submit'' ?s1) = Inr ()"
    by (rule trans [OF main [THEN conjunct1] r(1)])
  have c2': "events (snd (act scripted ''click on Submit'' ?s1))
      = events ?s1 @ [Settle, Interact (Some (JStr ''xpath=//button'')) (Some (JStr ''click'')) []]"
    using main [THEN conjunct2, THEN conjunct2, THEN conjunct2] lm by simp
  have c2: "events (snd (act scripted ''click on Submit'' ?s1))
      = [Settle, Interact (Some (JStr ''xpath=//button'')) (Some (JStr ''click'')) []]"
    using c2' e by simp
  have c3: "events (snd (act scripted ''click on Submit'' ?s2))
      = [Settle, Interact (Some (JStr ''xpath=//button'')) (Some (JStr ''click'')) []]"
    by (rule trans [OF main [THEN conjunct2, THEN conjunct2, THEN conjunct1, symmetric] c2])
  show ?thesis
    by (intro conjI h3 h4 st lm c1 c2 c3 r)
qed

text \<open>
  Claim C8: an empty or missing oracle response raises, is not retried and writes nothing.
  First conjunct: \<open>observe\<close> with \<open>null\<close> or the empty string for the element id; the
  check of line 244 raises. Second conjunct: \<open>act\<close> with an empty command list (or
  \<open>null\<close>, an empty object, an empty string); the value has no truthy \<open>length\<close>, and the
  loop raises before any interaction. In both, the oracle has been called exactly once
  when the call ends, and the mirrors and the cache are unchanged.
\<close>

theorem oracle_empty_response:
  "(\<not> observe_hits s instruction \<and>
      processElements C (page s) = (Inr (outputString, selectorMap), w1) \<and>
      chat_completion C instruction outputString w1 = (Inr elementId, w2) \<and>
      (elementId = None \<or> elementId = Some [])
    \<longrightarrow> fst (observe C instruction s) = Inl (Error ''no response when finding a selector'')
        \<and> observations (snd (observe C instruction s)) = observations s
        \<and> cache (snd (observe C instruction s)) = cache s
        \<and> oracle_calls (snd (observe C instruction s)) = Suc (oracle_calls s))
   \<and>
   (actions s (getKey action) = None \<and>
      processElements C (page (waitForSettledDom C s)) = (Inr (outputString', selectorMap'), w1') \<and>
      inference_act C action outputString' w1' = (Inr response, w2') \<and>
      (response = JArr [] \<or> response = JNull \<or> response = JObj [] \<or> response = JStr [])
    \<longrightarrow> fst (act C action s) = Inl TypeError
        \<and> actions (snd (act C action s)) = actions s
        \<and> observations (snd (act C action s)) = observations s
        \<and> cache (snd (act C action s)) = cache s
        \<and> oracle_calls (snd (act C action s)) = Suc (oracle_calls s)
        \<and> interactions (snd (act C action s)) = interactions s)"
proof (intro conjI impI)
  assume h: "\<not> observe_hits s instruction \<and>
      processElements C (page s) = (Inr (outputString, selectorMap), w1) \<and>
      chat_completion C instruction outputString w1 = (Inr elementId, w2) \<and>
      (elementId = None \<or> elementId = Some [])"
  then have obs: "observe C instruction s =
      (Inl (Error ''no response when finding a selector''),
       s\<lparr>page := w2, events := events s @ [Snapshot, OracleLocator instruction outputString]\<rparr>)"
    unfolding observe_def observe_hits_def by (auto simp: Let_def)
  show "fst (observe C instruction s) = Inl (Error ''no response when finding a selector'')"
    and "observations (snd (observe C instruction s)) = observations s"
    and "cache (snd (observe C instruction s)) = cache s"
    and "oracle_calls (snd (observe C instruction s)) = Suc (oracle_calls s)"
    by (simp_all add: obs oracle_calls_def)
next
  assume h: "actions s (getKey action) = None \<and>
      processElements C (page (waitForSettledDom C s)) = (Inr (outputString', selectorMap'), w1') \<and>
      inference_act C action outputString' w1' = (Inr response, w2') \<and>
      (response = JArr [] \<or> response = JNull \<or> response = JObj [] \<or> response = JStr [])"
  let ?s0 = "waitForSettledDom C s"
  from h have a0: "actions ?s0 (getKey action) = None"
    by (simp add: waitForSettledDom_frame)
  have cmds: "commands_of response = Inl TypeError \<or> commands_of response = Inr [response]"
    using h by (auto simp: commands_of_def utf16_length_eq_0)
  have run: "run_resolved C selectorMap' [response] st = (Inl TypeError, st)"
    if "response \<noteq> JNull" for st :: "'a stagehand"
    using h that
    by (auto simp: call_method_def property_key_def js_to_string_def taking_action_message_def
        Let_def)
  have act_eq: "act C action s =
      (Inl TypeError,
       ?s0\<lparr>page := w2', events := events ?s0 @ [Snapshot, OracleActions action outputString']\<rparr>)"
    using a0 h cmds run unfolding act_def by (auto simp: Let_def)
  show "fst (act C action s) = Inl TypeError"
    and "actions (snd (act C action s)) = actions s"
    and "observations (snd (act C action s)) = observations s"
    and "cache (snd (act C action s)) = cache s"
    and "oracle_calls (snd (act C action s)) = Suc (oracle_calls s)"
    and "interactions (snd (act C action s)) = interactions s"
    by (simp_all add: act_eq oracle_calls_def interactions_def waitForSettledDom_frame)
qed

theorem oracle_empty_response_witness:
  "\<not> observe_hits (new_Stagehand False False Map.empty Map.empty silent_page) ''the submit button''
   \<and> chat_completion scripted ''the submit button'' ''0: button Submit'' silent_page
       = (Inr None, silent_page)
   \<and> fst (observe scripted ''the submit button''
          (new_Stagehand False False Map.empty Map.empty silent_page))
       = Inl (Error ''no response when finding a selector'')
   \<and> oracle_calls (snd (observe scripted ''the submit button''
          (new_Stagehand False False Map.empty Map.empty silent_page))) = 1
   \<and> observations (snd (observe scripted ''the submit button''
          (new_Stagehand False False Map.empty Map.empty silent_page))) = Map.empty
   \<and> inference_act scripted ''click on Submit'' ''0: button Submit'' silent_page
       = (Inr (JArr []), silent_page)
   \<and> fst (act scripted ''click on Submit''
          (new_Stagehand False False Map.empty Map.empty silent_page)) = Inl TypeError
   \<and> oracle_calls (snd (act scripted ''click on Submit''
          (new_Stagehand False False Map.empty Map.empty silent_page))) = 1
   \<and> interactions (snd (act scripted ''click on Submit''
          (new_Stagehand False False Map.empty Map.empty silent_page))) = []
   \<and> actions (snd (act scripted ''click on Submit''
          (new_Stagehand False False Map.empty Map.empty silent_page))) = Map.empty"
proof -
  let ?s = "new_Stagehand False False Map.empty Map.empty silent_page :: world stagehand"
  have a: "\<not> observe_hits ?s ''the submit button'' \<and>
      processElements scripted (page ?s) =
        (Inr (''0: button Submit'', map_of [(''0'', ''//button'')]), silent_page) \<and>
      chat_completion scripted ''the submit button'' ''0: button Submit'' silent_page =
        (Inr None, silent_page) \<and>
      (None = None \<or> None = Some [])"
    by (simp add: demo_defs observe_hits_def)
  have b: "actions ?s (getKey ''click on Submit'') = None \<and>
      processElements scripted (page (waitForSettledDom scripted ?s)) =
        (Inr (''0: button Submit'', map_of [(''0'', ''//button'')]), silent_page) \<and>
      inference_act scripted ''click on Submit'' ''0: button Submit'' silent_page =
        (Inr (JArr []), silent_page) \<and>
      (JArr [] = JArr [] \<or> JArr [] = JNull \<or> JArr [] = JObj [] \<or> JArr [] = JStr [])"
    by (simp add: demo_defs waitForSettledDom_def)
  note o = oracle_empty_response [THEN conjunct1, THEN mp, OF a]
  note c = oracle_empty_response [THEN conjunct2, THEN mp, OF b]
  have z: "oracle_calls ?s = 0" "interactions ?s = []" "observations ?s = Map.empty"
    "actions ?s = Map.empty"
    by (simp_all add: demo_defs oracle_calls_def interactions_def)
  from o c a b z show ?thesis
    by simp
qed

text \<open>
  Claim C9: \<open>getKey\<close> is a total function of the instruction text alone (a HOL function
  of one argument, so equal texts have equal keys, in every run); the key is the SHA-256
  digest of the text written as 64 hexadecimal digits; and the session identifier has no
  part in it: whatever \<open>setId\<close> has set, \<open>cacheObservation\<close> and \<open>cacheAction\<close> store
  under the key of the text. The last conjunct is the FIPS 180-4 test vector.
\<close>

theorem getKey_digest:
  "length (getKey operation) = 64
   \<and> set (getKey operation) \<subseteq> set ''0123456789abcdef''
   \<and> getKey operation = digest_hex (sha256 operation)
   \<and> fst (cacheObservation operation res (setId i s)) = getKey operation
   \<and> fst (cacheAction operation res (setId i s)) = getKey operation
   \<and> getKey ''abc'' = ''ba7816bf8f01cfea414140de5dae2223b00361a396177a9cb410ff61f20015ad''"
  by (simp add: getKey_def [of operation] digest_hex_length digest_hex_hex cacheObservation_def
      cacheAction_def getKey_abc Let_def del: set_simps)

text \<open>
  Claim C10: whenever \<open>observe\<close> returns a key, on a hit or after a fresh resolution, the
  key is \<open>getKey\<close> of the instruction; so two successful calls with the same instruction,
  in whatever states and with whatever collaborators, return the same key.
\<close>

theorem observe_returns_getKey:
  assumes "fst (observe C instruction s) = Inr (Some k)"
    and "fst (observe C' instruction s') = Inr (Some k')"
  shows "k = getKey instruction \<and> k' = k"
  using assms unfolding observe_def cacheObservation_def expect_toBeAttached_def
  by (auto simp: Let_def split: prod.splits sum.splits if_splits option.splits)

theorem observe_returns_getKey_witness:
  "fst (observe scripted ''the submit button''
          (new_Stagehand False False Map.empty Map.empty submit_page))
     = Inr (Some (getKey ''the submit button''))
   \<and> fst (observe scripted ''the submit button''
          (new_Stagehand True False Map.empty Map.empty submit_page))
     = Inr (Some (getKey ''the submit button''))"
proof -
  have h1: "fst (observe scripted ''the submit button''
          (new_Stagehand False False Map.empty Map.empty submit_page))
     = Inr (Some (getKey ''the submit button''))"
    by (simp add: observe_def new_Stagehand_def scripted_def submit_page_def readObservations_def
        readActions_def expect_toBeAttached_def cacheObservation_def xpath_of_def Let_def)
  have h2: "fst (observe scripted ''the submit button''
          (new_Stagehand True False Map.empty Map.empty submit_page))
     = Inr (Some (getKey ''the submit button''))"
    by (simp add: observe_def new_Stagehand_def scripted_def submit_page_def readObservations_def
        readActions_def expect_toBeAttached_def cacheObservation_def xpath_of_def Let_def)
  from observe_returns_getKey [OF h1 h2] h1 h2 show ?thesis by simp
qed

end
